theory Spec2Isabelle
  imports Complex_Main "HOL-Library.Monad_Syntax"
begin

section \<open>The ride-sharing economics engine\<close>

text \<open>
  A shallow embedding of the class \<open>RideShareEconomics\<close> of \<open>temp.py\<close>: the base revenue,
  the 36-month projection helper and the two model calculators.

  Numbers. The Python computes on \<open>float\<close> and \<open>int\<close>. Currency amounts, rates and
  percentages are modelled as \<^typ>\<open>real\<close>, counts of drivers, days and months as
  \<^typ>\<open>int\<close>. The calculators are embedded twice. The first embedding computes in exact
  arithmetic: it carries the statements that relate the returned fields to each other
  and to the branches taken. The second embedding rounds every operation to a double: it
  carries the statements that compare a sum of returned values with a returned value,
  which rounding decides. Overflow to infinity, NaN and subnormal numbers are outside
  both.

  Exceptions. A function that can raise returns an \<open>option\<close>; \<open>None\<close> stands for a raised
  Python exception (\<open>ZeroDivisionError\<close> of \<open>/\<close>, \<open>KeyError\<close> of a dictionary lookup,
  \<open>IndexError\<close> of \<open>xs[-1]\<close>). The Python value \<open>None\<close> of an optional field is the \<open>None\<close>
  of an inner \<open>option\<close>.
\<close>

subsection \<open>Data\<close>

text \<open>The dictionary \<open>params\<close>, with the sixteen keys the script puts into it.\<close>

record params =
  avg_ticket_size :: real
  rides_per_day :: real
  working_days :: int
  utilization_rate :: real
  driver_salary :: real
  num_agg_drivers :: int
  agg_driver_acquisition_cost :: real
  agg_ops_salary :: real
  driver_churn_rate :: real
  num_fleet_drivers :: int
  fleet_driver_acquisition_cost :: real
  ev_cost :: real
  ev_maintenance :: real
  ev_fuel_cost :: real
  tax_rate :: real
  fixed_costs :: real

text \<open>A float that may be \<open>float('inf')\<close>.\<close>

datatype pyfloat = Finite real | Inf

text \<open>
  The dataclass \<open>BusinessMetrics\<close>. The two dictionaries are association lists in insertion
  order; their keys are the Python string keys.
\<close>

record BusinessMetrics =
  total_turnover :: real
  net_revenue :: real
  total_costs :: real
  gross_profit :: real
  profit_per_driver :: real
  break_even_rides :: pyfloat
  initial_investment :: real
  ev_payback_months :: "int option"
  cost_breakdown :: "(string \<times> real) list"
  monthly_projections :: "(string \<times> real list) list"
  break_even_month :: "int option"
  roi_percentage :: real
  total_3yr_profit :: real

subsection \<open>Python primitives\<close>

text \<open>\<open>a / b\<close> raises \<open>ZeroDivisionError\<close> when \<open>b\<close> is zero.\<close>

definition py_div :: "real \<Rightarrow> real \<Rightarrow> real option" where
  "py_div a b = (if b = 0 then None else Some (a / b))"

text \<open>\<open>d[k]\<close> raises \<open>KeyError\<close> when the key is missing.\<close>

definition py_getitem :: "('k \<times> 'v) list \<Rightarrow> 'k \<Rightarrow> 'v option" where
  "py_getitem d k = map_of d k"

text \<open>\<open>xs[-1]\<close> raises \<open>IndexError\<close> on the empty list.\<close>

definition py_last :: "'a list \<Rightarrow> 'a option" where
  "py_last xs = (if xs = [] then None else Some (last xs))"

subsection \<open>The constants of \<open>__init__\<close>\<close>

definition revenue_share_aggregator :: real where
  "revenue_share_aggregator = 3 / 100"

definition revenue_share_fleet :: real where
  "revenue_share_fleet = 93 / 100"

definition revenue_share_app :: real where
  "revenue_share_app = 7 / 100"

subsection \<open>\<open>calculate_base_revenue\<close>\<close>

definition calculate_base_revenue :: "real \<Rightarrow> real \<Rightarrow> int \<Rightarrow> real \<Rightarrow> int \<Rightarrow> real" where
  "calculate_base_revenue avg_ticket rides_day work_days utilization num_drivers =
     (let monthly_rides = rides_day * of_int work_days * utilization / 100
      in avg_ticket * monthly_rides * of_int num_drivers)"

subsection \<open>\<open>calculate_monthly_projections\<close>\<close>

text \<open>
  The loop \<open>for i in range(months): cumulative += monthly_profit; append(cumulative)\<close>,
  by recursion on the number of iterations left.
\<close>

fun cumulative_loop :: "nat \<Rightarrow> real \<Rightarrow> real \<Rightarrow> real list" where
  "cumulative_loop 0 cumulative monthly_profit = []"
| "cumulative_loop (Suc n) cumulative monthly_profit =
     (let cumulative' = cumulative + monthly_profit
      in cumulative' # cumulative_loop n cumulative' monthly_profit)"

text \<open>
  \<open>[x] * months\<close> is \<open>replicate (nat months) x\<close> (empty for \<open>months \<le> 0\<close>), and
  \<open>range(1, months + 1)\<close> is \<open>[1..months]\<close>.
\<close>

definition calculate_monthly_projections ::
  "real \<Rightarrow> real \<Rightarrow> real \<Rightarrow> real \<Rightarrow> int \<Rightarrow> real \<Rightarrow> int \<Rightarrow> (string \<times> real list) list option" where
  "calculate_monthly_projections monthly_profit monthly_costs monthly_revenue monthly_turnover
       num_drivers initial_inv months =
     do {
       per_driver \<leftarrow> py_div monthly_profit (of_int (max num_drivers 1));
       Some
         [(''month'', map of_int [1..months]),
          (''total_turnover'', replicate (nat months) monthly_turnover),
          (''net_revenue'', replicate (nat months) monthly_revenue),
          (''total_costs'', replicate (nat months) monthly_costs),
          (''gross_profit'', replicate (nat months) monthly_profit),
          (''profit_per_driver'', replicate (nat months) per_driver),
          (''cumulative_profit'', cumulative_loop (nat months) (- initial_inv) monthly_profit)]
     }"

subsection \<open>\<open>calculate_aggregator_model\<close>\<close>

definition calculate_aggregator_model :: "params \<Rightarrow> BusinessMetrics option" where
  "calculate_aggregator_model p =
     do {
       let base_revenue = calculate_base_revenue (avg_ticket_size p) (rides_per_day p)
             (working_days p) (utilization_rate p) (num_agg_drivers p);
       let net_rev = base_revenue * revenue_share_aggregator;
       monthly_acquisition_cost \<leftarrow>
         (if driver_churn_rate p > 0 then
            do {
              expected_tenure_months \<leftarrow> py_div 100 (driver_churn_rate p);
              py_div (agg_driver_acquisition_cost p * of_int (num_agg_drivers p))
                expected_tenure_months
            }
          else Some 0);
       let driver_salaries = 0;
       let ops_salary = agg_ops_salary p;
       let fixed = fixed_costs p;
       let profit_before_tax =
             net_rev - (monthly_acquisition_cost + driver_salaries + ops_salary + fixed);
       let tax_amount = max 0 (profit_before_tax * tax_rate p / 100);
       let total = monthly_acquisition_cost + driver_salaries + ops_salary + fixed + tax_amount;
       let breakdown =
             [(''Driver Salaries'', driver_salaries),
              (''Driver Acquisition (Monthly)'', monthly_acquisition_cost),
              (''Ops Team Salary'', ops_salary),
              (''Fixed Costs'', fixed),
              (''Taxes'', tax_amount)];
       let gross = net_rev - total;
       per_driver \<leftarrow> py_div gross (of_int (max (num_agg_drivers p) 1));
       (rides, month) \<leftarrow>
         (if gross \<le> 0 then Some (Inf, None)
          else
            do {
              let contribution_per_ride = avg_ticket_size p * revenue_share_aggregator;
              r \<leftarrow> py_div total contribution_per_ride;
              Some (Finite r, Some 1)
            });
       projections \<leftarrow> calculate_monthly_projections gross total net_rev base_revenue
             (num_agg_drivers p) 0 36;
       let total_3yr = gross * 36;
       let roi = (total_3yr / 1) * 100;
       Some \<lparr>total_turnover = base_revenue,
             net_revenue = net_rev,
             total_costs = total,
             gross_profit = gross,
             profit_per_driver = per_driver,
             break_even_rides = rides,
             initial_investment = 0,
             ev_payback_months = Some 0,
             cost_breakdown = breakdown,
             monthly_projections = projections,
             break_even_month = month,
             roi_percentage = roi,
             total_3yr_profit = total_3yr\<rparr>
     }"

subsection \<open>\<open>calculate_fleet_model\<close>\<close>

text \<open>
  The loop \<open>for i, profit in enumerate(cumulative_profits): if profit >= 0: ... break\<close>;
  the first argument is the index \<open>i\<close> of the head of the list.
\<close>

fun first_nonneg :: "int \<Rightarrow> real list \<Rightarrow> int option" where
  "first_nonneg i [] = None"
| "first_nonneg i (profit # rest) =
     (if profit \<ge> 0 then Some (i + 1) else first_nonneg (i + 1) rest)"

definition calculate_fleet_model :: "params \<Rightarrow> BusinessMetrics option" where
  "calculate_fleet_model p =
     do {
       let base_revenue = calculate_base_revenue (avg_ticket_size p) (rides_per_day p)
             (working_days p) (utilization_rate p) (num_fleet_drivers p);
       let net_rev = base_revenue * revenue_share_fleet;
       monthly_acquisition_cost \<leftarrow>
         (if driver_churn_rate p > 0 then
            do {
              expected_tenure_months \<leftarrow> py_div 100 (driver_churn_rate p);
              py_div (fleet_driver_acquisition_cost p * of_int (num_fleet_drivers p))
                expected_tenure_months
            }
          else Some 0);
       let driver_salaries = driver_salary p * of_int (num_fleet_drivers p);
       let initial_ev_investment = ev_cost p * of_int (num_fleet_drivers p);
       let maintenance_costs = ev_maintenance p * of_int (num_fleet_drivers p);
       let fuel_costs = ev_fuel_cost p * of_int (num_fleet_drivers p) * (utilization_rate p / 100);
       let fixed = fixed_costs p;
       let profit_before_tax =
             net_rev - (monthly_acquisition_cost + driver_salaries + maintenance_costs
                        + fuel_costs + fixed);
       let tax_amount = max 0 (profit_before_tax * tax_rate p / 100);
       let total_monthly_costs =
             monthly_acquisition_cost + driver_salaries + maintenance_costs + fuel_costs
             + fixed + tax_amount;
       let breakdown =
             [(''Driver Salaries'', driver_salaries),
              (''Driver Acquisition (Monthly)'', monthly_acquisition_cost),
              (''EV Investment (One-time)'', initial_ev_investment),
              (''Maintenance'', maintenance_costs),
              (''Fuel/Mileage'', fuel_costs),
              (''Fixed Costs'', fixed),
              (''Taxes'', tax_amount)];
       let gross = net_rev - total_monthly_costs;
       per_driver \<leftarrow> py_div gross (of_int (max (num_fleet_drivers p) 1));
       let contribution_per_ride = avg_ticket_size p * revenue_share_fleet;
       let monthly_contribution = gross;
       estimated_month \<leftarrow>
         (if monthly_contribution \<le> 0 then Some None
          else
            do {
              q \<leftarrow> py_div initial_ev_investment monthly_contribution;
              Some (Some (\<lceil>q\<rceil> + 1))
            });
       rides \<leftarrow>
         (if gross \<le> 0 then Some Inf
          else
            do {
              r \<leftarrow> py_div total_monthly_costs contribution_per_ride;
              Some (Finite r)
            });
       projections \<leftarrow> calculate_monthly_projections gross total_monthly_costs net_rev
             base_revenue (num_fleet_drivers p) initial_ev_investment 36;
       cumulative_profits \<leftarrow> py_getitem projections ''cumulative_profit'';
       let break_even_month_actual = first_nonneg 0 cumulative_profits;
       total_3yr \<leftarrow> py_last cumulative_profits;
       let roi = (if initial_ev_investment > 0
                  then (total_3yr / initial_ev_investment) * 100 else 0);
       Some \<lparr>total_turnover = base_revenue,
             net_revenue = net_rev,
             total_costs = total_monthly_costs,
             gross_profit = gross,
             profit_per_driver = per_driver,
             break_even_rides = rides,
             initial_investment = initial_ev_investment,
             ev_payback_months = break_even_month_actual,
             cost_breakdown = breakdown,
             monthly_projections = projections,
             break_even_month = break_even_month_actual,
             roi_percentage = roi,
             total_3yr_profit = total_3yr\<rparr>
     }"

subsection \<open>Valid bundles\<close>

text \<open>
  The calculators validate nothing. The domain of a bundle is the one the script's input
  widgets enforce, widened to the ranges documented for the engine: positive ticket size,
  rides per day and working days, percentages between 0 and 100, and no negative count
  or amount.
\<close>

definition valid_bundle :: "params \<Rightarrow> bool" where
  "valid_bundle p \<longleftrightarrow>
     avg_ticket_size p > 0 \<and> rides_per_day p > 0 \<and> working_days p > 0 \<and>
     0 \<le> utilization_rate p \<and> utilization_rate p \<le> 100 \<and>
     driver_salary p \<ge> 0 \<and> num_agg_drivers p \<ge> 0 \<and> num_fleet_drivers p \<ge> 0 \<and>
     agg_driver_acquisition_cost p \<ge> 0 \<and> fleet_driver_acquisition_cost p \<ge> 0 \<and>
     ev_cost p \<ge> 0 \<and> ev_maintenance p \<ge> 0 \<and> ev_fuel_cost p \<ge> 0 \<and>
     0 \<le> driver_churn_rate p \<and> driver_churn_rate p \<le> 100 \<and>
     0 \<le> tax_rate p \<and> tax_rate p \<le> 100 \<and>
     fixed_costs p \<ge> 0 \<and> agg_ops_salary p \<ge> 0"

subsection \<open>The values of the local variables\<close>

text \<open>
  The value each local variable of the two calculators holds when no division raises,
  as a function of the bundle. The lemmas \<open>aggregator_run\<close> and \<open>fleet_run\<close> below show
  that the calculators return exactly these values.
\<close>

definition acquisition_cost :: "real \<Rightarrow> real \<Rightarrow> int \<Rightarrow> real" where
  "acquisition_cost churn cost n =
     (if churn > 0 then cost * of_int n / (100 / churn) else 0)"

definition projections_of ::
  "real \<Rightarrow> real \<Rightarrow> real \<Rightarrow> real \<Rightarrow> int \<Rightarrow> real \<Rightarrow> (string \<times> real list) list" where
  "projections_of monthly_profit monthly_costs monthly_revenue monthly_turnover
       num_drivers initial_inv =
     [(''month'', map of_int [1..36]),
      (''total_turnover'', replicate 36 monthly_turnover),
      (''net_revenue'', replicate 36 monthly_revenue),
      (''total_costs'', replicate 36 monthly_costs),
      (''gross_profit'', replicate 36 monthly_profit),
      (''profit_per_driver'', replicate 36 (monthly_profit / of_int (max num_drivers 1))),
      (''cumulative_profit'', cumulative_loop 36 (- initial_inv) monthly_profit)]"

definition agg_base_revenue :: "params \<Rightarrow> real" where
  "agg_base_revenue p = calculate_base_revenue (avg_ticket_size p) (rides_per_day p)
     (working_days p) (utilization_rate p) (num_agg_drivers p)"

definition agg_net_revenue :: "params \<Rightarrow> real" where
  "agg_net_revenue p = agg_base_revenue p * revenue_share_aggregator"

definition agg_acquisition :: "params \<Rightarrow> real" where
  "agg_acquisition p =
     acquisition_cost (driver_churn_rate p) (agg_driver_acquisition_cost p) (num_agg_drivers p)"

definition agg_profit_before_tax :: "params \<Rightarrow> real" where
  "agg_profit_before_tax p =
     agg_net_revenue p - (agg_acquisition p + 0 + agg_ops_salary p + fixed_costs p)"

definition agg_tax_amount :: "params \<Rightarrow> real" where
  "agg_tax_amount p = max 0 (agg_profit_before_tax p * tax_rate p / 100)"

definition agg_total_costs :: "params \<Rightarrow> real" where
  "agg_total_costs p =
     agg_acquisition p + 0 + agg_ops_salary p + fixed_costs p + agg_tax_amount p"

definition agg_gross_profit :: "params \<Rightarrow> real" where
  "agg_gross_profit p = agg_net_revenue p - agg_total_costs p"

definition fleet_base_revenue :: "params \<Rightarrow> real" where
  "fleet_base_revenue p = calculate_base_revenue (avg_ticket_size p) (rides_per_day p)
     (working_days p) (utilization_rate p) (num_fleet_drivers p)"

definition fleet_net_revenue :: "params \<Rightarrow> real" where
  "fleet_net_revenue p = fleet_base_revenue p * revenue_share_fleet"

definition fleet_acquisition :: "params \<Rightarrow> real" where
  "fleet_acquisition p =
     acquisition_cost (driver_churn_rate p) (fleet_driver_acquisition_cost p)
       (num_fleet_drivers p)"

definition fleet_driver_salaries :: "params \<Rightarrow> real" where
  "fleet_driver_salaries p = driver_salary p * of_int (num_fleet_drivers p)"

definition fleet_initial_investment :: "params \<Rightarrow> real" where
  "fleet_initial_investment p = ev_cost p * of_int (num_fleet_drivers p)"

definition fleet_maintenance :: "params \<Rightarrow> real" where
  "fleet_maintenance p = ev_maintenance p * of_int (num_fleet_drivers p)"

definition fleet_fuel :: "params \<Rightarrow> real" where
  "fleet_fuel p = ev_fuel_cost p * of_int (num_fleet_drivers p) * (utilization_rate p / 100)"

definition fleet_profit_before_tax :: "params \<Rightarrow> real" where
  "fleet_profit_before_tax p =
     fleet_net_revenue p - (fleet_acquisition p + fleet_driver_salaries p
        + fleet_maintenance p + fleet_fuel p + fixed_costs p)"

definition fleet_tax_amount :: "params \<Rightarrow> real" where
  "fleet_tax_amount p = max 0 (fleet_profit_before_tax p * tax_rate p / 100)"

definition fleet_total_costs :: "params \<Rightarrow> real" where
  "fleet_total_costs p =
     fleet_acquisition p + fleet_driver_salaries p + fleet_maintenance p + fleet_fuel p
       + fixed_costs p + fleet_tax_amount p"

definition fleet_gross_profit :: "params \<Rightarrow> real" where
  "fleet_gross_profit p = fleet_net_revenue p - fleet_total_costs p"

subsection \<open>Example bundles\<close>

text \<open>The default values of the script's input widgets.\<close>

definition default_params :: params where
  "default_params =
     \<lparr>avg_ticket_size = 80, rides_per_day = 20, working_days = 26,
      utilization_rate = 100, driver_salary = 25000, num_agg_drivers = 100,
      agg_driver_acquisition_cost = 2000, agg_ops_salary = 75000, driver_churn_rate = 10,
      num_fleet_drivers = 10, fleet_driver_acquisition_cost = 5000, ev_cost = 180000,
      ev_maintenance = 1500, ev_fuel_cost = 4000, tax_rate = 0, fixed_costs = 50000\<rparr>"

text \<open>
  A bundle on which both models make a profit: 200 aggregator drivers, a vehicle at
  20000 and a tax rate of 20 percent.
\<close>

definition profitable_params :: params where
  "profitable_params = default_params\<lparr>num_agg_drivers := 200, ev_cost := 20000, tax_rate := 20\<rparr>"

text \<open>The same bundle without fixed costs: a higher fleet profit on the same investment.\<close>

definition lean_params :: params where
  "lean_params = profitable_params\<lparr>fixed_costs := 0\<rparr>"

text \<open>The default bundle with no driver churn.\<close>

definition zero_churn_params :: params where
  "zero_churn_params = default_params\<lparr>driver_churn_rate := 0\<rparr>"


section \<open>The calculators in double arithmetic\<close>

text \<open>
  Where a statement compares a sum of returned values with another returned value, the
  rounding of the Python \<open>float\<close> decides it. For these statements the calculators are
  embedded a second time, with every arithmetic operation of the source rounded as IEEE 754
  binary64 does: to the nearest number with a 53-bit significand, ties to the even
  significand. A double is the real number it denotes. The exponent range of the doubles
  is not enforced, so overflow to infinity and subnormal numbers are outside this model
  too; integers are converted exactly.
\<close>

subsection \<open>Rounding to binary64\<close>

definition pow2 :: "int \<Rightarrow> real" where
  "pow2 e = (if 0 \<le> e then 2 ^ nat e else 1 / 2 ^ nat (- e))"

text \<open>
  The binary exponent of a positive number, \<open>find_exp n x 0 = e\<close> with
  \<open>2^e \<le> x < 2^(e+1)\<close>, found by halving or doubling at most \<open>n\<close> times.
\<close>

fun find_exp :: "nat \<Rightarrow> real \<Rightarrow> int \<Rightarrow> int" where
  "find_exp 0 x e = e"
| "find_exp (Suc n) x e =
     (if 2 \<le> x then find_exp n (x / 2) (e + 1)
      else if x < 1 then find_exp n (2 * x) (e - 1)
      else e)"

text \<open>The nearest integer, ties to the even one.\<close>

definition round_even :: "real \<Rightarrow> int" where
  "round_even y =
     (let f = \<lfloor>y\<rfloor>; d = y - of_int f
      in if d < 1 / 2 then f
         else if 1 / 2 < d then f + 1
         else if even f then f else f + 1)"

text \<open>
  With \<open>2^e \<le> |x| < 2^(e+1)\<close> the doubles around \<open>x\<close> are the multiples of
  \<open>2^(e-52)\<close>. The 1100 steps cover every exponent a double can have.
\<close>

definition round64 :: "real \<Rightarrow> real" where
  "round64 x =
     (if x = 0 then 0
      else let e = find_exp 1100 \<bar>x\<bar> 0; u = pow2 (e - 52)
           in of_int (round_even (x / u)) * u)"

definition fadd :: "real \<Rightarrow> real \<Rightarrow> real" where
  "fadd a b = round64 (a + b)"

definition fsub :: "real \<Rightarrow> real \<Rightarrow> real" where
  "fsub a b = round64 (a - b)"

definition fmul :: "real \<Rightarrow> real \<Rightarrow> real" where
  "fmul a b = round64 (a * b)"

definition fdiv :: "real \<Rightarrow> real \<Rightarrow> real" where
  "fdiv a b = round64 (a / b)"

text \<open>\<open>a / b\<close> on floats: \<open>ZeroDivisionError\<close> when \<open>b\<close> is zero, the rounded quotient otherwise.\<close>

definition py_div_f64 :: "real \<Rightarrow> real \<Rightarrow> real option" where
  "py_div_f64 a b = (if b = 0 then None else Some (fdiv a b))"

text \<open>Adding the elements of a list one after another, from 0, as a loop over floats does.\<close>

definition py_sum :: "real list \<Rightarrow> real" where
  "py_sum xs = foldl fadd 0 xs"

subsection \<open>The calculators\<close>

text \<open>The literals \<open>0.03\<close> and \<open>0.93\<close> are the doubles nearest to them.\<close>

definition revenue_share_aggregator_f64 :: real where
  "revenue_share_aggregator_f64 = round64 (3 / 100)"

definition revenue_share_fleet_f64 :: real where
  "revenue_share_fleet_f64 = round64 (93 / 100)"

definition calculate_base_revenue_f64 :: "real \<Rightarrow> real \<Rightarrow> int \<Rightarrow> real \<Rightarrow> int \<Rightarrow> real" where
  "calculate_base_revenue_f64 avg_ticket rides_day work_days utilization num_drivers =
     (let monthly_rides = fdiv (fmul (fmul rides_day (of_int work_days)) utilization) 100
      in fmul (fmul avg_ticket monthly_rides) (of_int num_drivers))"

fun cumulative_loop_f64 :: "nat \<Rightarrow> real \<Rightarrow> real \<Rightarrow> real list" where
  "cumulative_loop_f64 0 cumulative monthly_profit = []"
| "cumulative_loop_f64 (Suc n) cumulative monthly_profit =
     (let cumulative' = fadd cumulative monthly_profit
      in cumulative' # cumulative_loop_f64 n cumulative' monthly_profit)"

definition calculate_monthly_projections_f64 ::
  "real \<Rightarrow> real \<Rightarrow> real \<Rightarrow> real \<Rightarrow> int \<Rightarrow> real \<Rightarrow> int \<Rightarrow> (string \<times> real list) list option" where
  "calculate_monthly_projections_f64 monthly_profit monthly_costs monthly_revenue
       monthly_turnover num_drivers initial_inv months =
     do {
       per_driver \<leftarrow> py_div_f64 monthly_profit (of_int (max num_drivers 1));
       Some
         [(''month'', map of_int [1..months]),
          (''total_turnover'', replicate (nat months) monthly_turnover),
          (''net_revenue'', replicate (nat months) monthly_revenue),
          (''total_costs'', replicate (nat months) monthly_costs),
          (''gross_profit'', replicate (nat months) monthly_profit),
          (''profit_per_driver'', replicate (nat months) per_driver),
          (''cumulative_profit'',
             cumulative_loop_f64 (nat months) (- initial_inv) monthly_profit)]
     }"

definition calculate_aggregator_model_f64 :: "params \<Rightarrow> BusinessMetrics option" where
  "calculate_aggregator_model_f64 p =
     do {
       let base_revenue = calculate_base_revenue_f64 (avg_ticket_size p) (rides_per_day p)
             (working_days p) (utilization_rate p) (num_agg_drivers p);
       let net_rev = fmul base_revenue revenue_share_aggregator_f64;
       monthly_acquisition_cost \<leftarrow>
         (if driver_churn_rate p > 0 then
            do {
              expected_tenure_months \<leftarrow> py_div_f64 100 (driver_churn_rate p);
              py_div_f64 (fmul (agg_driver_acquisition_cost p) (of_int (num_agg_drivers p)))
                expected_tenure_months
            }
          else Some 0);
       let driver_salaries = 0;
       let ops_salary = agg_ops_salary p;
       let fixed = fixed_costs p;
       let profit_before_tax =
             fsub net_rev
               (fadd (fadd (fadd monthly_acquisition_cost driver_salaries) ops_salary) fixed);
       let tax_amount = max 0 (fdiv (fmul profit_before_tax (tax_rate p)) 100);
       let total =
             fadd (fadd (fadd (fadd monthly_acquisition_cost driver_salaries) ops_salary) fixed)
               tax_amount;
       let breakdown =
             [(''Driver Salaries'', driver_salaries),
              (''Driver Acquisition (Monthly)'', monthly_acquisition_cost),
              (''Ops Team Salary'', ops_salary),
              (''Fixed Costs'', fixed),
              (''Taxes'', tax_amount)];
       let gross = fsub net_rev total;
       per_driver \<leftarrow> py_div_f64 gross (of_int (max (num_agg_drivers p) 1));
       (rides, month) \<leftarrow>
         (if gross \<le> 0 then Some (Inf, None)
          else
            do {
              let contribution_per_ride = fmul (avg_ticket_size p) revenue_share_aggregator_f64;
              r \<leftarrow> py_div_f64 total contribution_per_ride;
              Some (Finite r, Some 1)
            });
       projections \<leftarrow> calculate_monthly_projections_f64 gross total net_rev base_revenue
             (num_agg_drivers p) 0 36;
       let total_3yr = fmul gross 36;
       let roi = fmul (fdiv total_3yr 1) 100;
       Some \<lparr>total_turnover = base_revenue,
             net_revenue = net_rev,
             total_costs = total,
             gross_profit = gross,
             profit_per_driver = per_driver,
             break_even_rides = rides,
             initial_investment = 0,
             ev_payback_months = Some 0,
             cost_breakdown = breakdown,
             monthly_projections = projections,
             break_even_month = month,
             roi_percentage = roi,
             total_3yr_profit = total_3yr\<rparr>
     }"

definition calculate_fleet_model_f64 :: "params \<Rightarrow> BusinessMetrics option" where
  "calculate_fleet_model_f64 p =
     do {
       let base_revenue = calculate_base_revenue_f64 (avg_ticket_size p) (rides_per_day p)
             (working_days p) (utilization_rate p) (num_fleet_drivers p);
       let net_rev = fmul base_revenue revenue_share_fleet_f64;
       monthly_acquisition_cost \<leftarrow>
         (if driver_churn_rate p > 0 then
            do {
              expected_tenure_months \<leftarrow> py_div_f64 100 (driver_churn_rate p);
              py_div_f64
                (fmul (fleet_driver_acquisition_cost p) (of_int (num_fleet_drivers p)))
                expected_tenure_months
            }
          else Some 0);
       let driver_salaries = fmul (driver_salary p) (of_int (num_fleet_drivers p));
       let initial_ev_investment = fmul (ev_cost p) (of_int (num_fleet_drivers p));
       let maintenance_costs = fmul (ev_maintenance p) (of_int (num_fleet_drivers p));
       let fuel_costs =
             fmul (fmul (ev_fuel_cost p) (of_int (num_fleet_drivers p)))
               (fdiv (utilization_rate p) 100);
       let fixed = fixed_costs p;
       let profit_before_tax =
             fsub net_rev
               (fadd (fadd (fadd (fadd monthly_acquisition_cost driver_salaries)
                  maintenance_costs) fuel_costs) fixed);
       let tax_amount = max 0 (fdiv (fmul profit_before_tax (tax_rate p)) 100);
       let total_monthly_costs =
             fadd (fadd (fadd (fadd (fadd monthly_acquisition_cost driver_salaries)
                maintenance_costs) fuel_costs) fixed) tax_amount;
       let breakdown =
             [(''Driver Salaries'', driver_salaries),
              (''Driver Acquisition (Monthly)'', monthly_acquisition_cost),
              (''EV Investment (One-time)'', initial_ev_investment),
              (''Maintenance'', maintenance_costs),
              (''Fuel/Mileage'', fuel_costs),
              (''Fixed Costs'', fixed),
              (''Taxes'', tax_amount)];
       let gross = fsub net_rev total_monthly_costs;
       per_driver \<leftarrow> py_div_f64 gross (of_int (max (num_fleet_drivers p) 1));
       let contribution_per_ride = fmul (avg_ticket_size p) revenue_share_fleet_f64;
       let monthly_contribution = gross;
       estimated_month \<leftarrow>
         (if monthly_contribution \<le> 0 then Some None
          else
            do {
              q \<leftarrow> py_div_f64 initial_ev_investment monthly_contribution;
              Some (Some (\<lceil>q\<rceil> + 1))
            });
       rides \<leftarrow>
         (if gross \<le> 0 then Some Inf
          else
            do {
              r \<leftarrow> py_div_f64 total_monthly_costs contribution_per_ride;
              Some (Finite r)
            });
       projections \<leftarrow> calculate_monthly_projections_f64 gross total_monthly_costs net_rev
             base_revenue (num_fleet_drivers p) initial_ev_investment 36;
       cumulative_profits \<leftarrow> py_getitem projections ''cumulative_profit'';
       let break_even_month_actual = first_nonneg 0 cumulative_profits;
       total_3yr \<leftarrow> py_last cumulative_profits;
       let roi = (if initial_ev_investment > 0
                  then fmul (fdiv total_3yr initial_ev_investment) 100 else 0);
       Some \<lparr>total_turnover = base_revenue,
             net_revenue = net_rev,
             total_costs = total_monthly_costs,
             gross_profit = gross,
             profit_per_driver = per_driver,
             break_even_rides = rides,
             initial_investment = initial_ev_investment,
             ev_payback_months = break_even_month_actual,
             cost_breakdown = breakdown,
             monthly_projections = projections,
             break_even_month = break_even_month_actual,
             roi_percentage = roi,
             total_3yr_profit = total_3yr\<rparr>
     }"

subsection \<open>Bundles on which rounding shows\<close>

text \<open>The default bundle with 149 aggregator drivers and a tax rate of 5 percent.\<close>

definition agg_rounding_params :: params where
  "agg_rounding_params = default_params\<lparr>num_agg_drivers := 149, tax_rate := 5\<rparr>"

text \<open>The default bundle with 23 rides per day and a tax rate of 6 percent.\<close>

definition fleet_rounding_params :: params where
  "fleet_rounding_params = default_params\<lparr>rides_per_day := 23, tax_rate := 6\<rparr>"

subsection \<open>Reading the results\<close>

text \<open>The closed form of the projections for 36 months, as in exact arithmetic.\<close>

definition projections_of_f64 ::
  "real \<Rightarrow> real \<Rightarrow> real \<Rightarrow> real \<Rightarrow> int \<Rightarrow> real \<Rightarrow> (string \<times> real list) list" where
  "projections_of_f64 monthly_profit monthly_costs monthly_revenue monthly_turnover
       num_drivers initial_inv =
     [(''month'', map of_int [1..36]),
      (''total_turnover'', replicate 36 monthly_turnover),
      (''net_revenue'', replicate 36 monthly_revenue),
      (''total_costs'', replicate 36 monthly_costs),
      (''gross_profit'', replicate 36 monthly_profit),
      (''profit_per_driver'', replicate 36 (fdiv monthly_profit (of_int (max num_drivers 1)))),
      (''cumulative_profit'', cumulative_loop_f64 36 (- initial_inv) monthly_profit)]"

text \<open>The per-month \<open>gross_profit\<close> entries of a result, and the values of its cost breakdown.\<close>

definition gross_profit_entries :: "BusinessMetrics \<Rightarrow> real list option" where
  "gross_profit_entries m = py_getitem (monthly_projections m) ''gross_profit''"

definition breakdown_values :: "BusinessMetrics \<Rightarrow> real list" where
  "breakdown_values m = map snd (cost_breakdown m)"

section \<open>Properties in exact arithmetic\<close>

subsection \<open>Running the calculators\<close>

text \<open>
  On a valid bundle no division raises, and each calculator returns the record built from
  the values of its local variables.
\<close>

lemma py_div_drivers: "py_div a (of_int (max n 1)) = Some (a / of_int (max n 1))"
  by (simp add: py_div_def max_def)

lemma acquisition_bind:
  "(if churn > 0 then py_div 100 churn \<bind> py_div x else Some 0)
     = Some (if churn > 0 then x / (100 / churn) else 0)"
  by (simp add: py_div_def)

lemma projections_run:
  "calculate_monthly_projections g c r t n i 36 = Some (projections_of g c r t n i)"
  by (simp add: calculate_monthly_projections_def projections_of_def py_div_drivers)

lemma valid_ticket: "valid_bundle p \<Longrightarrow> avg_ticket_size p \<noteq> 0"
  by (simp add: valid_bundle_def)

lemma aggregator_run:
  assumes "valid_bundle p"
  shows "calculate_aggregator_model p = Some
     \<lparr>total_turnover = agg_base_revenue p,
      net_revenue = agg_net_revenue p,
      total_costs = agg_total_costs p,
      gross_profit = agg_gross_profit p,
      profit_per_driver = agg_gross_profit p / of_int (max (num_agg_drivers p) 1),
      break_even_rides = (if agg_gross_profit p \<le> 0 then Inf
         else Finite (agg_total_costs p / (avg_ticket_size p * revenue_share_aggregator))),
      initial_investment = 0,
      ev_payback_months = Some 0,
      cost_breakdown =
        [(''Driver Salaries'', 0),
         (''Driver Acquisition (Monthly)'', agg_acquisition p),
         (''Ops Team Salary'', agg_ops_salary p),
         (''Fixed Costs'', fixed_costs p),
         (''Taxes'', agg_tax_amount p)],
      monthly_projections = projections_of (agg_gross_profit p) (agg_total_costs p)
         (agg_net_revenue p) (agg_base_revenue p) (num_agg_drivers p) 0,
      break_even_month = (if agg_gross_profit p \<le> 0 then None else Some 1),
      roi_percentage = agg_gross_profit p * 36 / 1 * 100,
      total_3yr_profit = agg_gross_profit p * 36\<rparr>"
proof -
  have share: "revenue_share_aggregator \<noteq> 0"
    by (simp add: revenue_share_aggregator_def)
  show ?thesis
    unfolding calculate_aggregator_model_def acquisition_bind py_div_drivers projections_run
    using valid_ticket [OF assms] share
    by (simp add: Let_def py_div_def agg_gross_profit_def agg_total_costs_def agg_tax_amount_def
        agg_profit_before_tax_def agg_acquisition_def acquisition_cost_def agg_net_revenue_def
        agg_base_revenue_def)
qed

subsection \<open>The cumulative-profit loop\<close>

lemma length_cumulative_loop: "length (cumulative_loop n c g) = n"
  by (induction n arbitrary: c) (simp_all add: Let_def)

lemma nth_cumulative_loop:
  "i < n \<Longrightarrow> cumulative_loop n c g ! i = c + of_nat (Suc i) * g"
proof (induction n arbitrary: c i)
  case 0
  then show ?case by simp
next
  case (Suc n)
  show ?case
  proof (cases i)
    case 0
    then show ?thesis by (simp add: Let_def)
  next
    case (Suc j)
    with Suc.prems have "j < n" by simp
    from Suc.IH [OF this, of "c + g"] Suc show ?thesis
      by (simp add: Let_def algebra_simps)
  qed
qed

lemma last_cumulative_loop:
  "0 < n \<Longrightarrow> last (cumulative_loop n c g) = c + of_nat n * g"
proof -
  assume pos: "0 < n"
  then have ne: "cumulative_loop n c g \<noteq> []"
    using length_cumulative_loop [of n c g] by auto
  have "last (cumulative_loop n c g) = cumulative_loop n c g ! (n - 1)"
    using last_conv_nth [OF ne] by (simp add: length_cumulative_loop)
  also have "\<dots> = c + of_nat (Suc (n - 1)) * g"
    using pos by (intro nth_cumulative_loop) simp
  finally show ?thesis using pos by simp
qed

lemma cumulative_getitem:
  "py_getitem (projections_of g c r t n i) ''cumulative_profit'' = Some (cumulative_loop 36 (- i) g)"
  by (simp add: py_getitem_def projections_of_def)

lemma gross_profit_getitem:
  "py_getitem (projections_of g c r t n i) ''gross_profit'' = Some (replicate 36 g)"
  by (simp add: py_getitem_def projections_of_def)

lemma py_last_cumulative:
  "py_last (cumulative_loop 36 c g) = Some (c + 36 * g)"
proof -
  have "cumulative_loop 36 c g \<noteq> []"
    using length_cumulative_loop [of 36 c g] by auto
  then show ?thesis
    using last_cumulative_loop [of 36 c g] by (simp add: py_last_def)
qed

lemma fleet_run:
  assumes "valid_bundle p"
  shows "calculate_fleet_model p = Some
     \<lparr>total_turnover = fleet_base_revenue p,
      net_revenue = fleet_net_revenue p,
      total_costs = fleet_total_costs p,
      gross_profit = fleet_gross_profit p,
      profit_per_driver = fleet_gross_profit p / of_int (max (num_fleet_drivers p) 1),
      break_even_rides = (if fleet_gross_profit p \<le> 0 then Inf
         else Finite (fleet_total_costs p / (avg_ticket_size p * revenue_share_fleet))),
      initial_investment = fleet_initial_investment p,
      ev_payback_months =
         first_nonneg 0 (cumulative_loop 36 (- fleet_initial_investment p) (fleet_gross_profit p)),
      cost_breakdown =
        [(''Driver Salaries'', fleet_driver_salaries p),
         (''Driver Acquisition (Monthly)'', fleet_acquisition p),
         (''EV Investment (One-time)'', fleet_initial_investment p),
         (''Maintenance'', fleet_maintenance p),
         (''Fuel/Mileage'', fleet_fuel p),
         (''Fixed Costs'', fixed_costs p),
         (''Taxes'', fleet_tax_amount p)],
      monthly_projections = projections_of (fleet_gross_profit p) (fleet_total_costs p)
         (fleet_net_revenue p) (fleet_base_revenue p) (num_fleet_drivers p)
         (fleet_initial_investment p),
      break_even_month =
         first_nonneg 0 (cumulative_loop 36 (- fleet_initial_investment p) (fleet_gross_profit p)),
      roi_percentage = (if fleet_initial_investment p > 0
         then (- fleet_initial_investment p + 36 * fleet_gross_profit p)
                / fleet_initial_investment p * 100
         else 0),
      total_3yr_profit = - fleet_initial_investment p + 36 * fleet_gross_profit p\<rparr>"
proof -
  have share: "revenue_share_fleet \<noteq> 0"
    by (simp add: revenue_share_fleet_def)
  show ?thesis
    unfolding calculate_fleet_model_def acquisition_bind py_div_drivers projections_run
    using valid_ticket [OF assms] share
    by (simp add: Let_def py_div_def cumulative_getitem py_last_cumulative
        fleet_gross_profit_def fleet_total_costs_def fleet_tax_amount_def
        fleet_profit_before_tax_def fleet_acquisition_def acquisition_cost_def
        fleet_net_revenue_def fleet_base_revenue_def fleet_driver_salaries_def
        fleet_initial_investment_def fleet_maintenance_def fleet_fuel_def)
qed

subsection \<open>The break-even scan\<close>


lemma first_nonneg_Some:
  "first_nonneg i xs = Some k \<Longrightarrow>
     i < k \<and> k \<le> i + int (length xs) \<and> xs ! nat (k - i - 1) \<ge> 0
       \<and> (\<forall>j < nat (k - i - 1). xs ! j < 0)"
proof (induction xs arbitrary: i)
  case Nil
  then show ?case by simp
next
  case (Cons x xs)
  show ?case
  proof (cases "x \<ge> 0")
    case True
    with Cons.prems show ?thesis by simp
  next
    case False
    with Cons.prems have rec: "first_nonneg (i + 1) xs = Some k" by simp
    note ih = Cons.IH [OF rec]
    from ih have lt: "i + 1 < k" by simp
    then have idx: "nat (k - i - 1) = Suc (nat (k - (i + 1) - 1))" by simp
    have "\<forall>j < nat (k - i - 1). (x # xs) ! j < 0"
    proof (intro allI impI)
      fix j assume j: "j < nat (k - i - 1)"
      show "(x # xs) ! j < 0"
      proof (cases j)
        case 0
        with False show ?thesis by simp
      next
        case (Suc j')
        with j idx have "j' < nat (k - (i + 1) - 1)" by simp
        with ih Suc show ?thesis by simp
      qed
    qed
    moreover from ih idx have "(x # xs) ! nat (k - i - 1) \<ge> 0" by simp
    moreover from ih lt have "i < k" "k \<le> i + int (length (x # xs))" by simp_all
    ultimately show ?thesis by blast
  qed
qed

subsection \<open>The example bundles are valid\<close>

lemma valid_default: "valid_bundle default_params"
  by (simp add: valid_bundle_def default_params_def)

lemma valid_profitable: "valid_bundle profitable_params"
  by (simp add: valid_bundle_def profitable_params_def default_params_def)

lemma valid_lean: "valid_bundle lean_params"
  by (simp add: valid_bundle_def lean_params_def profitable_params_def default_params_def)

lemma valid_zero_churn: "valid_bundle zero_churn_params"
  by (simp add: valid_bundle_def zero_churn_params_def default_params_def)


subsection \<open>Break-even month of the aggregator model\<close>

lemma agg_gross_default: "agg_gross_profit default_params = - 20200"
  by (simp add: agg_gross_profit_def agg_total_costs_def agg_tax_amount_def
      agg_profit_before_tax_def agg_acquisition_def acquisition_cost_def agg_net_revenue_def
      agg_base_revenue_def calculate_base_revenue_def revenue_share_aggregator_def
      default_params_def)

text \<open>
  Claim C1 as stated: on every valid bundle the aggregator's \<open>break_even_month\<close> is 1, also
  when the gross profit is not positive. On the default bundle the gross profit is
  \<open>-20200\<close> and the field is \<open>None\<close>: the branch \<open>gross_profit <= 0\<close> assigns
  \<open>break_even_month = None\<close>.
\<close>

theorem aggregator_break_even_month_counterexample:
  "valid_bundle default_params
   \<and> map_option gross_profit (calculate_aggregator_model default_params) = Some (- 20200)
   \<and> map_option break_even_month (calculate_aggregator_model default_params) = Some None"
  by (simp add: aggregator_run [OF valid_default] valid_default agg_gross_default)

text \<open>
  Claim C1, amended: on every valid bundle the aggregator model returns, and its
  \<open>break_even_month\<close> is 1 when the gross profit is positive and \<open>None\<close> when the gross
  profit is zero or negative.
\<close>

theorem aggregator_break_even_month:
  "valid_bundle p \<Longrightarrow>
     \<exists>m. calculate_aggregator_model p = Some m
       \<and> break_even_month m = (if gross_profit m \<le> 0 then None else Some 1)"
  by (simp add: aggregator_run)

theorem aggregator_break_even_month_witness:
  "valid_bundle profitable_params
   \<and> (\<exists>m. calculate_aggregator_model profitable_params = Some m
         \<and> break_even_month m = (if gross_profit m \<le> 0 then None else Some 1))"
  using aggregator_break_even_month [OF valid_profitable] valid_profitable by simp

subsection \<open>The calculators on the example bundles\<close>


lemmas fleet_defs = fleet_gross_profit_def fleet_total_costs_def fleet_tax_amount_def
  fleet_profit_before_tax_def fleet_acquisition_def acquisition_cost_def
  fleet_net_revenue_def fleet_base_revenue_def fleet_driver_salaries_def
  fleet_initial_investment_def fleet_maintenance_def fleet_fuel_def
  calculate_base_revenue_def revenue_share_fleet_def


lemma fleet_profitable_values:
  "fleet_net_revenue profitable_params = 386880"
  "fleet_initial_investment profitable_params = 200000"
  "fleet_tax_amount profitable_params = 5376"
  "fleet_total_costs profitable_params = 365376"
  "fleet_gross_profit profitable_params = 21504"
  by (simp_all add: fleet_defs profitable_params_def default_params_def)

lemma fleet_lean_values:
  "fleet_initial_investment lean_params = 200000"
  "fleet_gross_profit lean_params = 61504"
  by (simp_all add: fleet_defs lean_params_def profitable_params_def default_params_def)



lemma scan_profitable: "first_nonneg 0 (cumulative_loop 36 (- 200000) 21504) = Some 10"
  by (simp add: numeral_eq_Suc Let_def)

lemma scan_lean: "first_nonneg 0 (cumulative_loop 36 (- 200000) 61504) = Some 4"
  by (simp add: numeral_eq_Suc Let_def)

subsection \<open>Gross profit\<close>



subsection \<open>Tax\<close>



subsection \<open>The projection helper\<close>



subsection \<open>Break-even month of the fleet model\<close>





subsection \<open>Break-even rides\<close>



subsection \<open>Driver acquisition without churn\<close>

text \<open>
  Claim C7: on every valid bundle whose churn rate is 0, both models return (no division
  by zero) and the monthly driver acquisition cost, the \<open>Driver Acquisition (Monthly)\<close>
  entry of the breakdown, is 0, whatever the acquisition cost per driver and the number
  of drivers.
\<close>

theorem zero_churn_acquisition:
  "valid_bundle p \<Longrightarrow> driver_churn_rate p = 0 \<Longrightarrow>
     (\<exists>m. calculate_aggregator_model p = Some m
        \<and> py_getitem (cost_breakdown m) ''Driver Acquisition (Monthly)'' = Some 0)
     \<and> (\<exists>m. calculate_fleet_model p = Some m
        \<and> py_getitem (cost_breakdown m) ''Driver Acquisition (Monthly)'' = Some 0)"
  by (simp add: aggregator_run fleet_run py_getitem_def agg_acquisition_def
      fleet_acquisition_def acquisition_cost_def)

theorem zero_churn_acquisition_witness:
  "valid_bundle zero_churn_params \<and> driver_churn_rate zero_churn_params = 0
   \<and> agg_driver_acquisition_cost zero_churn_params = 2000
   \<and> num_agg_drivers zero_churn_params = 100
   \<and> (\<exists>m. calculate_aggregator_model zero_churn_params = Some m
        \<and> py_getitem (cost_breakdown m) ''Driver Acquisition (Monthly)'' = Some 0)
   \<and> (\<exists>m. calculate_fleet_model zero_churn_params = Some m
        \<and> py_getitem (cost_breakdown m) ''Driver Acquisition (Monthly)'' = Some 0)"
proof -
  have fields: "driver_churn_rate zero_churn_params = 0"
    "agg_driver_acquisition_cost zero_churn_params = 2000"
    "num_agg_drivers zero_churn_params = 100"
    by (simp_all add: zero_churn_params_def default_params_def)
  from zero_churn_acquisition [OF valid_zero_churn fields(1)] valid_zero_churn fields
  show ?thesis by simp
qed

subsection \<open>Three-year profit of the aggregator model\<close>

text \<open>
  In exact arithmetic the 36 entries of the aggregator's \<open>gross_profit\<close> projection sum to
  its \<open>total_3yr_profit\<close>, and both are 36 times the gross profit. The doubles of the
  Python round the product, so this holds of them only up to rounding; the statement for
  doubles is in the last section.
\<close>

lemma aggregator_projection_sum_exact:
  "valid_bundle p \<Longrightarrow>
     \<exists>m gs.
       calculate_aggregator_model p = Some m
       \<and> py_getitem (monthly_projections m) ''gross_profit'' = Some gs
       \<and> length gs = 36
       \<and> sum_list gs = total_3yr_profit m
       \<and> total_3yr_profit m = 36 * gross_profit m"
  by (simp add: aggregator_run gross_profit_getitem sum_list_replicate)

text \<open>
  The fleet has no such law: its \<open>total_3yr_profit\<close> is the last cumulative entry, which
  has the initial investment taken off.
\<close>

lemma fleet_projection_sum_differs:
  "\<exists>m gs.
     calculate_fleet_model profitable_params = Some m
     \<and> py_getitem (monthly_projections m) ''gross_profit'' = Some gs
     \<and> sum_list gs = 774144
     \<and> total_3yr_profit m = 574144"
  by (simp add: fleet_run [OF valid_profitable] gross_profit_getitem sum_list_replicate
      fleet_profitable_values)

subsection \<open>Monotonicity of the fleet's break-even month\<close>

lemma first_nonneg_cumulative_mono:
  assumes k1: "first_nonneg 0 (cumulative_loop n (- i) g1) = Some k1"
    and k2: "first_nonneg 0 (cumulative_loop n (- i) g2) = Some k2"
    and less: "g1 < g2"
  shows "k2 \<le> k1"
proof (rule ccontr)
  assume "\<not> k2 \<le> k1"
  then have gt: "k1 < k2" by simp
  from first_nonneg_Some [OF k1]
  have b1: "0 < k1" "k1 \<le> int n" "0 \<le> cumulative_loop n (- i) g1 ! nat (k1 - 1)"
    by (simp_all add: length_cumulative_loop)
  from first_nonneg_Some [OF k2]
  have b2: "\<forall>j < nat (k2 - 1). cumulative_loop n (- i) g2 ! j < 0"
    by simp
  from b1 have idx: "nat (k1 - 1) < n" by simp
  from b1 gt have "nat (k1 - 1) < nat (k2 - 1)" by simp
  with b2 have neg: "cumulative_loop n (- i) g2 ! nat (k1 - 1) < 0" by simp
  define c :: real where "c = of_nat (Suc (nat (k1 - 1)))"
  have "0 \<le> c"
    by (simp add: c_def)
  with less have mono: "c * g1 \<le> c * g2"
    by (simp add: mult_left_mono)
  have e1: "cumulative_loop n (- i) g1 ! nat (k1 - 1) = - i + c * g1"
    unfolding c_def by (rule nth_cumulative_loop [OF idx])
  have e2: "cumulative_loop n (- i) g2 ! nat (k1 - 1) = - i + c * g2"
    unfolding c_def by (rule nth_cumulative_loop [OF idx])
  from b1(3) neg e1 e2 mono show False
    by linarith
qed

text \<open>
  Claim C9: for two valid bundles whose fleet models have the same initial investment and
  gross profits \<open>g1 < g2\<close>, if the break-even month is defined for both, the one at \<open>g2\<close> is
  not later than the one at \<open>g1\<close>.
\<close>

theorem fleet_break_even_month_monotone:
  "valid_bundle p1 \<Longrightarrow> valid_bundle p2 \<Longrightarrow>
   calculate_fleet_model p1 = Some m1 \<Longrightarrow> calculate_fleet_model p2 = Some m2 \<Longrightarrow>
   initial_investment m1 = initial_investment m2 \<Longrightarrow>
   gross_profit m1 < gross_profit m2 \<Longrightarrow>
   break_even_month m1 = Some k1 \<Longrightarrow> break_even_month m2 = Some k2 \<Longrightarrow>
   k2 \<le> k1"
proof -
  assume v1: "valid_bundle p1" and v2: "valid_bundle p2"
    and run1: "calculate_fleet_model p1 = Some m1"
    and run2: "calculate_fleet_model p2 = Some m2"
    and same: "initial_investment m1 = initial_investment m2"
    and less: "gross_profit m1 < gross_profit m2"
    and k1: "break_even_month m1 = Some k1"
    and k2: "break_even_month m2 = Some k2"
  from run1 have m1: "gross_profit m1 = fleet_gross_profit p1"
      "initial_investment m1 = fleet_initial_investment p1"
      "break_even_month m1 = first_nonneg 0
          (cumulative_loop 36 (- fleet_initial_investment p1) (fleet_gross_profit p1))"
    by (auto simp add: fleet_run [OF v1])
  from run2 have m2: "gross_profit m2 = fleet_gross_profit p2"
      "initial_investment m2 = fleet_initial_investment p2"
      "break_even_month m2 = first_nonneg 0
          (cumulative_loop 36 (- fleet_initial_investment p2) (fleet_gross_profit p2))"
    by (auto simp add: fleet_run [OF v2])
  from same m1 m2 have inv_eq: "fleet_initial_investment p2 = fleet_initial_investment p1"
    by simp
  from k1 m1 have s1: "first_nonneg 0
      (cumulative_loop 36 (- fleet_initial_investment p1) (fleet_gross_profit p1)) = Some k1"
    by simp
  from k2 m2 inv_eq have s2: "first_nonneg 0
      (cumulative_loop 36 (- fleet_initial_investment p1) (fleet_gross_profit p2)) = Some k2"
    by simp
  from less m1 m2 have "fleet_gross_profit p1 < fleet_gross_profit p2"
    by simp
  from first_nonneg_cumulative_mono [OF s1 s2 this] show ?thesis .
qed

theorem fleet_break_even_month_monotone_witness:
  "\<exists>m1 m2.
     valid_bundle profitable_params \<and> valid_bundle lean_params
     \<and> calculate_fleet_model profitable_params = Some m1
     \<and> calculate_fleet_model lean_params = Some m2
     \<and> initial_investment m1 = 200000 \<and> initial_investment m2 = 200000
     \<and> gross_profit m1 = 21504 \<and> gross_profit m2 = 61504
     \<and> gross_profit m1 < gross_profit m2
     \<and> break_even_month m1 = Some 10 \<and> break_even_month m2 = Some 4
     \<and> (4 :: int) \<le> 10"
proof -
  obtain m1 where run1: "calculate_fleet_model profitable_params = Some m1"
    by (simp add: fleet_run [OF valid_profitable])
  obtain m2 where run2: "calculate_fleet_model lean_params = Some m2"
    by (simp add: fleet_run [OF valid_lean])
  from run1 have v1: "initial_investment m1 = 200000" "gross_profit m1 = 21504"
      "break_even_month m1 = Some 10"
    by (auto simp add: fleet_run [OF valid_profitable] fleet_profitable_values scan_profitable)
  from run2 have v2: "initial_investment m2 = 200000" "gross_profit m2 = 61504"
      "break_even_month m2 = Some 4"
    by (auto simp add: fleet_run [OF valid_lean] fleet_lean_values scan_lean)
  from v1 v2 have same: "initial_investment m1 = initial_investment m2"
    and less: "gross_profit m1 < gross_profit m2"
    by simp_all
  from fleet_break_even_month_monotone
    [OF valid_profitable valid_lean run1 run2 same less v1(3) v2(3)]
  have "(4 :: int) \<le> 10" .
  with valid_profitable valid_lean run1 run2 v1 v2 less show ?thesis
    by blast
qed

subsection \<open>The cost breakdown\<close>

text \<open>
  In exact arithmetic the entries of the aggregator's cost breakdown sum to its
  \<open>total_costs\<close>, and the entries of the fleet's cost breakdown sum to its \<open>total_costs\<close>
  plus its \<open>initial_investment\<close>. The doubles of the Python add the entries in a fixed
  order and round each sum; the statement for doubles is in the last section.
\<close>

lemma cost_breakdown_sums_exact:
  "valid_bundle p \<Longrightarrow>
     (\<exists>m. calculate_aggregator_model p = Some m
        \<and> sum_list (map snd (cost_breakdown m)) = total_costs m
        \<and> py_getitem (cost_breakdown m) ''EV Investment (One-time)'' = None)
     \<and> (\<exists>m. calculate_fleet_model p = Some m
        \<and> sum_list (map snd (cost_breakdown m)) = total_costs m + initial_investment m
        \<and> py_getitem (cost_breakdown m) ''EV Investment (One-time)''
            = Some (initial_investment m))"
  by (simp add: aggregator_run fleet_run py_getitem_def agg_total_costs_def
      fleet_total_costs_def)

section \<open>Properties in double arithmetic\<close>

subsection \<open>Rounding to the nearest double\<close>

text \<open>
  \<open>find_exp\<close> finds the binade of its argument, and \<open>round64\<close> returns a multiple of the
  spacing of the doubles in that binade that is nearest to its argument, the even
  multiple on a tie.
\<close>

lemma pow2_powi: "pow2 e = 2 powi e"
  by (simp add: pow2_def power_int_def inverse_eq_divide power_one_over)

lemma pow2_pos: "0 < pow2 e"
  by (simp add: pow2_powi)

lemma pow2_Suc: "pow2 (e + 1) = 2 * pow2 e"
  by (simp add: pow2_powi power_int_add)

lemma pow2_pred: "pow2 (e - 1) = pow2 e / 2"
  using pow2_Suc [of "e - 1"] by simp

lemma find_exp_bounds:
  "0 < x \<Longrightarrow> pow2 (- int n) \<le> x \<Longrightarrow> x < pow2 (int n + 1) \<Longrightarrow>
     pow2 (find_exp n x e - e) \<le> x \<and> x < 2 * pow2 (find_exp n x e - e)"
proof (induction n arbitrary: x e)
  case 0
  then show ?case by (simp add: pow2_def)
next
  case (Suc n)
  have one: "pow2 (- int n) \<le> 1"
    by (simp add: pow2_def)
  have two: "2 \<le> pow2 (int n + 1)"
    using pow2_Suc [of "int n"] one pow2_pos [of "int n"]
    by (simp add: pow2_def)
  show ?case
  proof (cases "2 \<le> x")
    case True
    have "pow2 (- int n) \<le> x / 2"
      using True one by simp
    moreover have "x / 2 < pow2 (int n + 1)"
      using Suc.prems(3) pow2_Suc [of "int n + 1"] by (simp add: add.commute)
    ultimately have "pow2 (find_exp n (x / 2) (e + 1) - (e + 1)) \<le> x / 2
        \<and> x / 2 < 2 * pow2 (find_exp n (x / 2) (e + 1) - (e + 1))"
      using Suc.IH [of "x / 2" "e + 1"] Suc.prems(1) by simp
    moreover have "pow2 (find_exp n (x / 2) (e + 1) - e)
        = 2 * pow2 (find_exp n (x / 2) (e + 1) - (e + 1))"
      using pow2_Suc [of "find_exp n (x / 2) (e + 1) - (e + 1)"] by simp
    ultimately show ?thesis
      using True by simp
  next
    case False
    show ?thesis
    proof (cases "x < 1")
      case True
      have "pow2 (- int n) \<le> 2 * x"
        using Suc.prems(2) pow2_Suc [of "- int (Suc n)"] by simp
      moreover have "2 * x < pow2 (int n + 1)"
        using True two by simp
      ultimately have "pow2 (find_exp n (2 * x) (e - 1) - (e - 1)) \<le> 2 * x
          \<and> 2 * x < 2 * pow2 (find_exp n (2 * x) (e - 1) - (e - 1))"
        using Suc.IH [of "2 * x" "e - 1"] Suc.prems(1) by simp
      moreover have "pow2 (find_exp n (2 * x) (e - 1) - (e - 1))
          = 2 * pow2 (find_exp n (2 * x) (e - 1) - e)"
        using pow2_Suc [of "find_exp n (2 * x) (e - 1) - e"] by (simp add: algebra_simps)
      ultimately show ?thesis
        using True False by simp
    next
      case False
      with \<open>\<not> 2 \<le> x\<close> show ?thesis
        by (simp add: pow2_def)
    qed
  qed
qed

lemma round_even_near: "\<bar>of_int (round_even y) - y\<bar> \<le> 1 / 2"
  unfolding round_even_def Let_def by (auto simp add: abs_if) linarith+

lemma round_even_tie: "\<bar>of_int (round_even y) - y\<bar> = 1 / 2 \<Longrightarrow> even (round_even y)"
  unfolding round_even_def Let_def by (auto simp add: abs_if split: if_splits) linarith+

lemma round64_nearest:
  assumes "x \<noteq> 0" and "pow2 (- 1100) \<le> \<bar>x\<bar>" and "\<bar>x\<bar> < pow2 1101"
  shows "\<exists>e n. pow2 e \<le> \<bar>x\<bar> \<and> \<bar>x\<bar> < 2 * pow2 e
           \<and> round64 x = of_int n * pow2 (e - 52)
           \<and> \<bar>round64 x - x\<bar> \<le> pow2 (e - 52) / 2
           \<and> (\<bar>round64 x - x\<bar> = pow2 (e - 52) / 2 \<longrightarrow> even n)"
proof -
  define e where "e = find_exp 1100 \<bar>x\<bar> 0"
  define u where "u = pow2 (e - 52)"
  define n where "n = round_even (x / u)"
  have upos: "0 < u"
    by (simp add: u_def pow2_pos)
  have r: "round64 x = of_int n * u"
    using assms(1) by (simp add: round64_def Let_def e_def u_def n_def)
  have binade: "pow2 e \<le> \<bar>x\<bar> \<and> \<bar>x\<bar> < 2 * pow2 e"
    using find_exp_bounds [of "\<bar>x\<bar>" 1100 0] assms by (simp add: e_def)
  have "round64 x - x = (of_int n - x / u) * u"
    using upos by (simp add: r field_simps)
  then have err: "\<bar>round64 x - x\<bar> = \<bar>of_int n - x / u\<bar> * u"
    using upos by (simp add: abs_mult)
  have near: "\<bar>round64 x - x\<bar> \<le> u / 2"
  proof -
    have "\<bar>of_int n - x / u\<bar> * u \<le> (1 / 2) * u"
      using round_even_near [of "x / u"] upos
      by (intro mult_right_mono) (simp_all add: n_def)
    with err show ?thesis by simp
  qed
  have tie: "even n" if "\<bar>round64 x - x\<bar> = u / 2"
  proof -
    from that err upos have "\<bar>of_int n - x / u\<bar> = 1 / 2"
      by (simp add: field_simps)
    then show ?thesis
      unfolding n_def by (rule round_even_tie)
  qed
  from binade r near tie show ?thesis
    unfolding u_def by blast
qed

subsection \<open>Evaluating the rounding\<close>

lemma find_exp_numeral:
  "find_exp (numeral k) x e =
     (if 2 \<le> x then find_exp (pred_numeral k) (x / 2) (e + 1)
      else if x < 1 then find_exp (pred_numeral k) (2 * x) (e - 1)
      else e)"
  by (simp add: numeral_eq_Suc)

lemmas f64_eval = fadd_def fsub_def fmul_def fdiv_def round64_def find_exp_numeral pow2_def
  round_even_def Let_def

lemma round64_zero: "round64 0 = 0"
  by (simp add: round64_def)

lemma py_div_f64_drivers:
  "py_div_f64 a (of_int (max n 1)) = Some (fdiv a (of_int (max n 1)))"
  by (simp add: py_div_f64_def max_def)

lemma projections_run_f64:
  "calculate_monthly_projections_f64 g c r t n i 36 = Some (projections_of_f64 g c r t n i)"
  by (simp add: calculate_monthly_projections_f64_def projections_of_f64_def
      py_div_f64_drivers)

lemma gross_profit_getitem_f64:
  "py_getitem (projections_of_f64 g c r t n i) ''gross_profit'' = Some (replicate 36 g)"
  by (simp add: py_getitem_def projections_of_f64_def)

lemma foldl_replicate_numeral:
  "foldl f a (replicate (numeral k) x) = foldl f (f a x) (replicate (pred_numeral k) x)"
  by (simp add: numeral_eq_Suc)

lemma valid_agg_rounding: "valid_bundle agg_rounding_params"
  by (simp add: valid_bundle_def agg_rounding_params_def default_params_def)

lemma valid_fleet_rounding: "valid_bundle fleet_rounding_params"
  by (simp add: valid_bundle_def fleet_rounding_params_def default_params_def)

subsection \<open>What a result of the double calculators holds\<close>

lemma aggregator_f64_fields:
  assumes "calculate_aggregator_model_f64 p = Some m"
  shows "monthly_projections m = projections_of_f64 (gross_profit m) (total_costs m)
           (net_revenue m) (total_turnover m) (num_agg_drivers p) 0"
    and "total_3yr_profit m = fmul (gross_profit m) 36"
    and "\<exists>acq tax.
           cost_breakdown m =
             [(''Driver Salaries'', 0), (''Driver Acquisition (Monthly)'', acq),
              (''Ops Team Salary'', agg_ops_salary p), (''Fixed Costs'', fixed_costs p),
              (''Taxes'', tax)]
           \<and> total_costs m =
               fadd (fadd (fadd (fadd acq 0) (agg_ops_salary p)) (fixed_costs p)) tax"
  using assms
  by (auto simp add: calculate_aggregator_model_f64_def Let_def bind_eq_Some_conv
      projections_run_f64 py_div_f64_drivers split: if_splits)

lemma fleet_f64_fields:
  assumes "calculate_fleet_model_f64 p = Some m"
  shows "\<exists>sal acq mnt fuel tax.
           cost_breakdown m =
             [(''Driver Salaries'', sal), (''Driver Acquisition (Monthly)'', acq),
              (''EV Investment (One-time)'', initial_investment m), (''Maintenance'', mnt),
              (''Fuel/Mileage'', fuel), (''Fixed Costs'', fixed_costs p), (''Taxes'', tax)]
           \<and> total_costs m =
               fadd (fadd (fadd (fadd (fadd acq sal) mnt) fuel) (fixed_costs p)) tax"
  using assms
  by (auto simp add: calculate_fleet_model_f64_def Let_def bind_eq_Some_conv
      projections_run_f64 py_div_f64_drivers split: if_splits)

subsection \<open>The double calculators on the rounding bundles\<close>

text \<open>
  Each step of the two runs is evaluated on its own; the values are those the Python
  computes on these bundles.
\<close>

lemma cumulative_loop_f64_numeral:
  "cumulative_loop_f64 (numeral k) c g =
     fadd c g # cumulative_loop_f64 (pred_numeral k) (fadd c g) g"
  by (simp add: numeral_eq_Suc Let_def)

lemma length_cumulative_loop_f64: "length (cumulative_loop_f64 n c g) = n"
  by (induction n arbitrary: c) (simp_all add: Let_def)

lemma cumulative_getitem_f64:
  "py_getitem (projections_of_f64 g c r t n i) ''cumulative_profit''
     = Some (cumulative_loop_f64 36 (- i) g)"
  by (simp add: py_getitem_def projections_of_f64_def)

lemma fleet_rounding_cumulative:
  "cumulative_loop_f64 36 (- 1800000) (342812607255675 / 4294967296) =
     [- (7388128525544325 / 4294967296), - (3522657959144325 / 2147483648),
      - (6702503311032975 / 4294967296), - (1589922675944325 / 1073741824),
      - (6016878096521625 / 4294967296), - (2837032744632975 / 2147483648),
      - (5331252882010275 / 4294967296), - (623555034344325 / 536870912),
      - (4645627667498925 / 4294967296), - (2151407530121625 / 2147483648),
      - (3960002452987575 / 4294967296), - (904297461432975 / 1073741824),
      - (3274377238476225 / 4294967296), - (1465782315610275 / 2147483648),
      - (2588752023964875 / 4294967296), - (140371213544325 / 268435456),
      - (1903126809453525 / 4294967296), - (780157101098925 / 2147483648),
      - (1217501594942175 / 4294967296), - (218672246921625 / 1073741824),
      - (531876380430825 / 4294967296), - (94531886587575 / 2147483648),
      153748834080525 / 4294967296, 62070180167025 / 536870912,
      839374048591875 / 4294967296, 591093327923775 / 2147483648,
      1524999263103225 / 4294967296, 466952967589725 / 1073741824,
      2210624477614575 / 4294967296, 1276718542435125 / 2147483648,
      2896249692125925 / 4294967296, 101220696855675 / 134217728,
      3581874906637275 / 4294967296, 1962343756946475 / 2147483648,
      4267500121148625 / 4294967296, 1152578182101075 / 1073741824]"
  by (simp add: cumulative_loop_f64_numeral f64_eval)

lemma agg_rounding_run:
  "calculate_aggregator_model_f64 agg_rounding_params = Some
     \<lparr>total_turnover = 6198400,
      net_revenue = 185952,
      total_costs = 5372406227848397 / 34359738368,
      gross_profit = 1016855841157939 / 34359738368,
      profit_per_driver = 6988324707018319 / 35184372088832,
      break_even_rides = Finite (8954010379747329 / 137438953472),
      initial_investment = 0,
      ev_payback_months = Some 0,
      cost_breakdown =
        [(''Driver Salaries'', 0),
         (''Driver Acquisition (Monthly)'', 29800),
         (''Ops Team Salary'', 75000),
         (''Fixed Costs'', 50000),
         (''Taxes'', 3425198622847795 / 2199023255552)],
      monthly_projections = projections_of_f64 (1016855841157939 / 34359738368)
         (5372406227848397 / 34359738368) 185952 6198400 149 0,
      break_even_month = Some 1,
      roi_percentage = 7149767633141759 / 67108864,
      total_3yr_profit = 2287925642605363 / 2147483648\<rparr>"
proof -
  have base: "calculate_base_revenue_f64 80 20 26 100 149 = 6198400"
    by (simp add: calculate_base_revenue_f64_def f64_eval)
  have net: "fmul 6198400 revenue_share_aggregator_f64 = 185952"
    by (simp add: revenue_share_aggregator_f64_def f64_eval)
  have tenure: "py_div_f64 100 10 = Some 10"
    by (simp add: py_div_f64_def f64_eval)
  have acq: "py_div_f64 (fmul 2000 149) 10 = Some 29800"
    by (simp add: py_div_f64_def f64_eval)
  have costs: "fadd (fadd (fadd 29800 0) 75000) 50000 = 154800"
    by (simp add: f64_eval)
  have pbt: "fsub 185952 154800 = 31152"
    by (simp add: f64_eval)
  have tax: "fdiv (fmul 31152 5) 100 = 3425198622847795 / 2199023255552"
    by (simp add: f64_eval)
  have total: "fadd 154800 (3425198622847795 / 2199023255552) = 5372406227848397 / 34359738368"
    by (simp add: f64_eval)
  have gross: "fsub 185952 (5372406227848397 / 34359738368) = 1016855841157939 / 34359738368"
    by (simp add: f64_eval)
  have per_driver: "py_div_f64 (1016855841157939 / 34359738368) 149
      = Some (6988324707018319 / 35184372088832)"
    by (simp add: py_div_f64_def f64_eval)
  have contribution: "fmul 80 revenue_share_aggregator_f64 = 5404319552844595 / 2251799813685248"
    by (simp add: revenue_share_aggregator_f64_def f64_eval)
  have rides: "py_div_f64 (5372406227848397 / 34359738368)
      (5404319552844595 / 2251799813685248) = Some (8954010379747329 / 137438953472)"
    by (simp add: py_div_f64_def f64_eval)
  have total_3yr: "fmul (1016855841157939 / 34359738368) 36 = 2287925642605363 / 2147483648"
    by (simp add: f64_eval)
  have roi: "fmul (fdiv (2287925642605363 / 2147483648) 1) 100 = 7149767633141759 / 67108864"
    by (simp add: f64_eval)
  show ?thesis
    by (simp add: calculate_aggregator_model_f64_def agg_rounding_params_def
        default_params_def Let_def projections_run_f64 base net tenure acq costs pbt tax
        total gross per_driver contribution rides total_3yr roi)
qed

lemma fleet_rounding_run:
  "calculate_fleet_model_f64 fleet_rounding_params = Some
     \<lparr>total_turnover = 478400,
      net_revenue = 444912,
      total_costs = 1568069882342277 / 4294967296,
      gross_profit = 342812607255675 / 4294967296,
      profit_per_driver = 68562521451135 / 8589934592,
      break_even_rides = Finite (674438659071947 / 137438953472),
      initial_investment = 1800000,
      ev_payback_months = Some 23,
      cost_breakdown =
        [(''Driver Salaries'', 250000),
         (''Driver Acquisition (Monthly)'', 5000),
         (''EV Investment (One-time)'', 1800000),
         (''Maintenance'', 15000),
         (''Fuel/Mileage'', 40000),
         (''Fixed Costs'', 50000),
         (''Taxes'', 5601703880262943 / 1099511627776)],
      monthly_projections = projections_of_f64 (342812607255675 / 4294967296)
         (1568069882342277 / 4294967296) 444912 478400 10 1800000,
      break_even_month = Some 23,
      roi_percentage = 8392818193575117 / 140737488355328,
      total_3yr_profit = 1152578182101075 / 1073741824\<rparr>"
proof -
  have base: "calculate_base_revenue_f64 80 23 26 100 10 = 478400"
    by (simp add: calculate_base_revenue_f64_def f64_eval)
  have net: "fmul 478400 revenue_share_fleet_f64 = 444912"
    by (simp add: revenue_share_fleet_f64_def f64_eval)
  have tenure: "py_div_f64 100 10 = Some 10"
    by (simp add: py_div_f64_def f64_eval)
  have acq: "py_div_f64 (fmul 5000 10) 10 = Some 5000"
    by (simp add: py_div_f64_def f64_eval)
  have per_vehicle: "fmul 25000 10 = 250000" "fmul 180000 10 = 1800000"
    "fmul 1500 10 = 15000" "fmul (fmul 4000 10) (fdiv 100 100) = 40000"
    by (simp_all add: f64_eval)
  have costs: "fadd (fadd (fadd (fadd 5000 250000) 15000) 40000) 50000 = 360000"
    by (simp add: f64_eval)
  have pbt: "fsub 444912 360000 = 84912"
    by (simp add: f64_eval)
  have tax: "fdiv (fmul 84912 6) 100 = 5601703880262943 / 1099511627776"
    by (simp add: f64_eval)
  have total: "fadd 360000 (5601703880262943 / 1099511627776) = 1568069882342277 / 4294967296"
    by (simp add: f64_eval)
  have gross: "fsub 444912 (1568069882342277 / 4294967296) = 342812607255675 / 4294967296"
    by (simp add: f64_eval)
  have per_driver: "py_div_f64 (342812607255675 / 4294967296) 10
      = Some (68562521451135 / 8589934592)"
    by (simp add: py_div_f64_def f64_eval)
  have contribution: "fmul 80 revenue_share_fleet_f64 = 2617717283409101 / 35184372088832"
    by (simp add: revenue_share_fleet_f64_def f64_eval)
  have estimate: "py_div_f64 1800000 (342812607255675 / 4294967296)
      = Some (6347685088732423 / 281474976710656)"
    by (simp add: py_div_f64_def f64_eval)
  have rides: "py_div_f64 (1568069882342277 / 4294967296)
      (2617717283409101 / 35184372088832) = Some (674438659071947 / 137438953472)"
    by (simp add: py_div_f64_def f64_eval)
  have roi: "fmul (fdiv (1152578182101075 / 1073741824) 1800000) 100
      = 8392818193575117 / 140737488355328"
    by (simp add: f64_eval)
  show ?thesis
    by (simp add: calculate_fleet_model_f64_def fleet_rounding_params_def
        default_params_def Let_def projections_run_f64 cumulative_getitem_f64
        fleet_rounding_cumulative py_last_def base net tenure acq per_vehicle costs pbt tax
        total gross per_driver contribution estimate rides roi)
qed

lemma agg_rounding_py_sum:
  "py_sum (replicate 36 (1016855841157939 / 34359738368)) = 4575851285210729 / 4294967296"
  by (simp add: py_sum_def foldl_replicate_numeral f64_eval)

subsection \<open>Three-year profit of the aggregator model in doubles\<close>

text \<open>
  Claim C8 as stated: the 36 per-month \<open>gross_profit\<close> entries of the aggregator sum to its
  \<open>total_3yr_profit\<close> exactly. With 149 aggregator drivers and a tax rate of 5 percent every
  entry is the double \<open>29594.399999999994\<close> and \<open>total_3yr_profit\<close> is the double
  \<open>1065398.4\<close>. The sum of the 36 entries is smaller by \<open>2^-33\<close>, and adding the entries one
  after another in doubles gives \<open>1065398.4000000006\<close>.
\<close>

theorem aggregator_projection_sum_counterexample:
  "valid_bundle agg_rounding_params
   \<and> map_option gross_profit (calculate_aggregator_model_f64 agg_rounding_params)
       = Some (1016855841157939 / 34359738368)
   \<and> calculate_aggregator_model_f64 agg_rounding_params \<bind> gross_profit_entries
       = Some (replicate 36 (1016855841157939 / 34359738368))
   \<and> map_option total_3yr_profit (calculate_aggregator_model_f64 agg_rounding_params)
       = Some (2287925642605363 / 2147483648)
   \<and> sum_list (replicate 36 (1016855841157939 / 34359738368 :: real))
       = 9151702570421451 / 8589934592
   \<and> (9151702570421451 / 8589934592 :: real) \<noteq> 2287925642605363 / 2147483648
   \<and> py_sum (replicate 36 (1016855841157939 / 34359738368))
       = 4575851285210729 / 4294967296
   \<and> (4575851285210729 / 4294967296 :: real) \<noteq> 2287925642605363 / 2147483648"
  by (simp add: valid_agg_rounding agg_rounding_run gross_profit_entries_def
      gross_profit_getitem_f64 sum_list_replicate agg_rounding_py_sum)

text \<open>
  Claim C8, amended: whenever the aggregator model returns a result, on the valid bundles
  in particular, each of the 36 per-month \<open>gross_profit\<close> entries is the gross profit, and
  \<open>total_3yr_profit\<close> is the double product of the gross profit and 36, which is the sum of
  the 36 entries rounded once to the nearest double.
\<close>

theorem aggregator_projection_sum_rounded:
  "calculate_aggregator_model_f64 p = Some m \<Longrightarrow>
     \<exists>gs. gross_profit_entries m = Some gs
       \<and> gs = replicate 36 (gross_profit m)
       \<and> total_3yr_profit m = fmul (gross_profit m) 36
       \<and> total_3yr_profit m = round64 (sum_list gs)"
proof -
  assume run: "calculate_aggregator_model_f64 p = Some m"
  have "sum_list (replicate 36 (gross_profit m)) = gross_profit m * 36"
    by (simp add: sum_list_replicate)
  then show ?thesis
    using aggregator_f64_fields(1,2) [OF run]
    by (simp add: gross_profit_entries_def gross_profit_getitem_f64 fmul_def)
qed

theorem aggregator_projection_sum_rounded_witness:
  "valid_bundle agg_rounding_params
   \<and> (\<exists>m. calculate_aggregator_model_f64 agg_rounding_params = Some m
        \<and> gross_profit m = 1016855841157939 / 34359738368
        \<and> gross_profit_entries m = Some (replicate 36 (1016855841157939 / 34359738368))
        \<and> total_3yr_profit m = 2287925642605363 / 2147483648
        \<and> round64 (sum_list (replicate 36 (1016855841157939 / 34359738368)))
            = 2287925642605363 / 2147483648)"
proof -
  obtain m where run: "calculate_aggregator_model_f64 agg_rounding_params = Some m"
    by (simp add: agg_rounding_run)
  from run have vals: "gross_profit m = 1016855841157939 / 34359738368"
      "total_3yr_profit m = 2287925642605363 / 2147483648"
    by (auto simp add: agg_rounding_run)
  from aggregator_projection_sum_rounded [OF run] vals
  have "gross_profit_entries m = Some (replicate 36 (1016855841157939 / 34359738368))"
    and "round64 (sum_list (replicate 36 (1016855841157939 / 34359738368)))
          = 2287925642605363 / 2147483648"
    by auto
  with run vals valid_agg_rounding show ?thesis
    by blast
qed

subsection \<open>The cost breakdown in doubles\<close>

text \<open>
  Claim C10 as stated: the values of the fleet's cost breakdown sum to \<open>total_costs\<close> plus
  \<open>initial_investment\<close> exactly. With 23 rides per day and a tax rate of 6 percent the tax
  is the double \<open>5094.72\<close> and \<open>total_costs\<close> is the double \<open>365094.72\<close>, which is not the
  sum of the six monthly entries: the values sum to more than \<open>total_costs\<close> plus the
  investment of 1800000. In doubles the values add up to \<open>2165094.72\<close>, also when their sum
  is rounded once, and \<open>total_costs + initial_investment\<close> is \<open>2165094.7199999997\<close>.
\<close>

theorem cost_breakdown_sums_counterexample:
  "valid_bundle fleet_rounding_params
   \<and> map_option breakdown_values (calculate_fleet_model_f64 fleet_rounding_params)
       = Some [250000, 5000, 1800000, 15000, 40000, 50000,
               5601703880262943 / 1099511627776]
   \<and> map_option total_costs (calculate_fleet_model_f64 fleet_rounding_params)
       = Some (1568069882342277 / 4294967296)
   \<and> map_option initial_investment (calculate_fleet_model_f64 fleet_rounding_params)
       = Some 1800000
   \<and> sum_list [250000, 5000, 1800000, 15000, 40000, 50000,
                5601703880262943 / 1099511627776 :: real]
       = 2380546819876422943 / 1099511627776
   \<and> (1568069882342277 / 4294967296 + 1800000 :: real) = 9299011015142277 / 4294967296
   \<and> (2380546819876422943 / 1099511627776 :: real) \<noteq> 9299011015142277 / 4294967296
   \<and> py_sum [250000, 5000, 1800000, 15000, 40000, 50000,
              5601703880262943 / 1099511627776]
       = 4649505507571139 / 2147483648
   \<and> round64 (2380546819876422943 / 1099511627776) = 4649505507571139 / 2147483648
   \<and> fadd (1568069882342277 / 4294967296) 1800000 = 2324752753785569 / 1073741824
   \<and> (4649505507571139 / 2147483648 :: real) \<noteq> 2324752753785569 / 1073741824
   \<and> (4649505507571139 / 2147483648 :: real) \<noteq> 9299011015142277 / 4294967296"
proof -
  have sums: "py_sum [250000, 5000, 1800000, 15000, 40000, 50000,
              5601703880262943 / 1099511627776] = 4649505507571139 / 2147483648"
    "round64 (2380546819876422943 / 1099511627776) = 4649505507571139 / 2147483648"
    "fadd (1568069882342277 / 4294967296) 1800000 = 2324752753785569 / 1073741824"
    by (simp_all add: py_sum_def f64_eval)
  show ?thesis
    by (simp add: valid_fleet_rounding fleet_rounding_run breakdown_values_def sums)
qed

text \<open>
  Claim C10, amended: whenever the aggregator model returns a result, the values of its
  cost breakdown, added one after another in doubles in the order of the breakdown, give
  its \<open>total_costs\<close> exactly, and the breakdown has no entry \<open>EV Investment (One-time)\<close>.
  Whenever the fleet model returns a result, its \<open>total_costs\<close> is the double sum of the
  six monthly entries of its breakdown in the order acquisition, salaries, maintenance,
  fuel, fixed costs, taxes; the entry \<open>EV Investment (One-time)\<close> holds the
  \<open>initial_investment\<close> and is not part of \<open>total_costs\<close>.
\<close>

theorem cost_breakdown_sums_rounded:
  "(calculate_aggregator_model_f64 p = Some ma \<longrightarrow>
      py_sum (breakdown_values ma) = total_costs ma
      \<and> py_getitem (cost_breakdown ma) ''EV Investment (One-time)'' = None)
   \<and> (calculate_fleet_model_f64 q = Some mf \<longrightarrow>
      (\<exists>sal acq ev mnt fuel fx tax.
         cost_breakdown mf =
           [(''Driver Salaries'', sal), (''Driver Acquisition (Monthly)'', acq),
            (''EV Investment (One-time)'', ev), (''Maintenance'', mnt),
            (''Fuel/Mileage'', fuel), (''Fixed Costs'', fx), (''Taxes'', tax)]
         \<and> total_costs mf = fadd (fadd (fadd (fadd (fadd acq sal) mnt) fuel) fx) tax
         \<and> ev = initial_investment mf))"
proof (intro conjI impI)
  assume run: "calculate_aggregator_model_f64 p = Some ma"
  from aggregator_f64_fields(3) [OF run] obtain acq tax where
    bd: "cost_breakdown ma =
           [(''Driver Salaries'', 0), (''Driver Acquisition (Monthly)'', acq),
            (''Ops Team Salary'', agg_ops_salary p), (''Fixed Costs'', fixed_costs p),
            (''Taxes'', tax)]"
    and total: "total_costs ma =
           fadd (fadd (fadd (fadd acq 0) (agg_ops_salary p)) (fixed_costs p)) tax"
    by blast
  have "fadd (fadd 0 0) acq = fadd acq 0"
    by (simp add: fadd_def round64_zero)
  with bd total show "py_sum (breakdown_values ma) = total_costs ma"
    by (simp add: py_sum_def breakdown_values_def)
  from bd show "py_getitem (cost_breakdown ma) ''EV Investment (One-time)'' = None"
    by (simp add: py_getitem_def)
next
  assume run: "calculate_fleet_model_f64 q = Some mf"
  from fleet_f64_fields [OF run]
  show "\<exists>sal acq ev mnt fuel fx tax.
         cost_breakdown mf =
           [(''Driver Salaries'', sal), (''Driver Acquisition (Monthly)'', acq),
            (''EV Investment (One-time)'', ev), (''Maintenance'', mnt),
            (''Fuel/Mileage'', fuel), (''Fixed Costs'', fx), (''Taxes'', tax)]
         \<and> total_costs mf = fadd (fadd (fadd (fadd (fadd acq sal) mnt) fuel) fx) tax
         \<and> ev = initial_investment mf"
    by blast
qed

theorem cost_breakdown_sums_rounded_witness:
  "valid_bundle agg_rounding_params \<and> valid_bundle fleet_rounding_params
   \<and> (\<exists>ma. calculate_aggregator_model_f64 agg_rounding_params = Some ma
        \<and> py_sum (breakdown_values ma) = 5372406227848397 / 34359738368
        \<and> total_costs ma = 5372406227848397 / 34359738368
        \<and> py_getitem (cost_breakdown ma) ''EV Investment (One-time)'' = None)
   \<and> (\<exists>mf. calculate_fleet_model_f64 fleet_rounding_params = Some mf
        \<and> cost_breakdown mf =
            [(''Driver Salaries'', 250000), (''Driver Acquisition (Monthly)'', 5000),
             (''EV Investment (One-time)'', 1800000), (''Maintenance'', 15000),
             (''Fuel/Mileage'', 40000), (''Fixed Costs'', 50000),
             (''Taxes'', 5601703880262943 / 1099511627776)]
        \<and> total_costs mf =
            fadd (fadd (fadd (fadd (fadd 5000 250000) 15000) 40000) 50000)
              (5601703880262943 / 1099511627776)
        \<and> total_costs mf = 1568069882342277 / 4294967296
        \<and> initial_investment mf = 1800000)"
proof -
  obtain ma where runa: "calculate_aggregator_model_f64 agg_rounding_params = Some ma"
    by (simp add: agg_rounding_run)
  obtain mf where runf: "calculate_fleet_model_f64 fleet_rounding_params = Some mf"
    by (simp add: fleet_rounding_run)
  note both = cost_breakdown_sums_rounded
    [of agg_rounding_params ma fleet_rounding_params mf]
  from runa have ta: "total_costs ma = 5372406227848397 / 34359738368"
    by (auto simp add: agg_rounding_run)
  from both runa ta have agg:
    "py_sum (breakdown_values ma) = 5372406227848397 / 34359738368"
    "py_getitem (cost_breakdown ma) ''EV Investment (One-time)'' = None"
    by simp_all
  from runf have vf: "cost_breakdown mf =
            [(''Driver Salaries'', 250000), (''Driver Acquisition (Monthly)'', 5000),
             (''EV Investment (One-time)'', 1800000), (''Maintenance'', 15000),
             (''Fuel/Mileage'', 40000), (''Fixed Costs'', 50000),
             (''Taxes'', 5601703880262943 / 1099511627776)]"
      "total_costs mf = 1568069882342277 / 4294967296"
      "initial_investment mf = 1800000"
    by (auto simp add: fleet_rounding_run)
  from both runf obtain sal acq ev mnt fuel fx tax where
    bd: "cost_breakdown mf =
           [(''Driver Salaries'', sal), (''Driver Acquisition (Monthly)'', acq),
            (''EV Investment (One-time)'', ev), (''Maintenance'', mnt),
            (''Fuel/Mileage'', fuel), (''Fixed Costs'', fx), (''Taxes'', tax)]"
    and total: "total_costs mf = fadd (fadd (fadd (fadd (fadd acq sal) mnt) fuel) fx) tax"
    by blast
  from bd vf(1) have entries: "sal = 250000" "acq = 5000" "mnt = 15000" "fuel = 40000"
      "fx = 50000" "tax = 5601703880262943 / 1099511627776"
    by simp_all
  from total have "total_costs mf =
            fadd (fadd (fadd (fadd (fadd 5000 250000) 15000) 40000) 50000)
              (5601703880262943 / 1099511627776)"
    by (simp only: entries)
  with runa ta agg runf vf valid_agg_rounding valid_fleet_rounding show ?thesis
    by blast
qed

end
